theory Spec2Isabelle
  imports Main
begin

section \<open>Errors\<close>

text \<open>
  Every exception the modelled code raises is a value.  \<open>KeyError\<close> is Python's own
  (a subscript on a dict with a missing key), \<open>CoreException\<close> is what
  \<open>StructValue.get_field\<close> raises for a field that is not set, and the remaining three
  are the \<open>werkzeug.exceptions\<close> classes the REST handler raises.
\<close>

datatype error = KeyError | CoreException | NotFound | BadRequest | InternalServerError

text \<open>
  Modelled from the spec: the HTTP status of the werkzeug exception classes, which are
  not among the sources.  The spec's error taxonomy gives 404 to a request that no
  operation matches, 400 to a malformed request and 500 to a server error; Python's
  own exceptions carry no status.
\<close>

fun http_code :: "error \<Rightarrow> nat option" where
  "http_code NotFound = Some 404"
| "http_code BadRequest = Some 400"
| "http_code InternalServerError = Some 500"
| "http_code KeyError = None"
| "http_code CoreException = None"

section \<open>Task manager (vmware/vapi/task/task\_manager\_impl.py)\<close>

subsection \<open>Data\<close>

text \<open>
  Modelled from the spec: the data values of the runtime (module
  \<open>vmware.vapi.data.value\<close>, which is not among the sources), as far as the task
  manager builds and inspects them.  The spec's task info is a struct of named fields
  (status, description, cancelable flag, user, service, operation); a struct keeps its
  fields as a dictionary from field name to value, and two values are equal when they
  are of the same kind and hold the same content.
\<close>

datatype data_value =
    StringValue string
  | BooleanValue bool
  | ListValue "data_value list"
  | StructValue "(string \<times> data_value) list"

text \<open>
  Modelled from the spec: \<open>StructValue.set_field\<close> stores the value under the name and
  replaces an older one.
\<close>

fun set_field :: "string \<Rightarrow> data_value \<Rightarrow> data_value \<Rightarrow> data_value" where
  "set_field f v (StructValue fs) = StructValue ((f, v) # filter (\<lambda>p. fst p \<noteq> f) fs)"
| "set_field f v d = d"

text \<open>
  Modelled from the spec: \<open>StructValue.get_field\<close> gives the value of a field and
  raises when the field is not set.
\<close>

fun get_field :: "data_value \<Rightarrow> string \<Rightarrow> error + data_value" where
  "get_field (StructValue fs) f =
     (case map_of fs f of None \<Rightarrow> Inl CoreException | Some v \<Rightarrow> Inr v)"
| "get_field d f = Inl CoreException"

definition URI_DELIMITER :: string where
  "URI_DELIMITER = '':''"

text \<open>Times are microseconds (the resolution of \<open>datetime\<close>) on the UTC clock.\<close>

definition TASK_EXPIRE_DURATION_SEC :: int where
  "TASK_EXPIRE_DURATION_SEC = 24 * 60 * 60"

definition PENDING_STRING_VALUE :: data_value where
  "PENDING_STRING_VALUE = StringValue ''PENDING''"

definition SUCCEEDED_STRING_VALUE :: data_value where
  "SUCCEEDED_STRING_VALUE = StringValue ''SUCCEEDED''"

definition FAILED_STRING_VALUE :: data_value where
  "FAILED_STRING_VALUE = StringValue ''FAILED''"

definition TRUE_BOOLEAN_VALUE :: data_value where
  "TRUE_BOOLEAN_VALUE = BooleanValue True"

text \<open>
  \<open>TaskSummary\<close>: the task info and the resolved types of the operation's errors (each
  stood for by its name).
\<close>

record task_summary =
  info :: data_value
  errors :: "string list"

text \<open>
  \<open>TaskManagerImpl\<close>: the dictionary of tasks, the set of (task id, time of the last
  status change) pairs scheduled for removal and the set of task ids marked for
  cancellation.
\<close>

record task_manager =
  task_map :: "string \<rightharpoonup> task_summary"
  tasks_to_remove :: "(string \<times> int) set"
  tasks_to_cancel :: "string set"

definition init_task_manager :: task_manager where
  "init_task_manager = \<lparr>task_map = Map.empty, tasks_to_remove = {}, tasks_to_cancel = {}\<rparr>"

subsection \<open>Operations\<close>

text \<open>
  An operation takes the manager and returns its result, or the exception it raised,
  together with the manager as the call left it.
\<close>

definition create_task_id :: "string \<Rightarrow> string \<Rightarrow> string" where
  "create_task_id base_id service_id = base_id @ URI_DELIMITER @ service_id"

definition get_summary :: "string \<Rightarrow> task_manager \<Rightarrow> error + task_summary" where
  "get_summary task_id s =
     (case task_map s task_id of None \<Rightarrow> Inl KeyError | Some summ \<Rightarrow> Inr summ)"

definition get_info :: "string \<Rightarrow> task_manager \<Rightarrow> error + data_value" where
  "get_info task_id s =
     (case task_map s task_id of None \<Rightarrow> Inl KeyError | Some summ \<Rightarrow> Inr (info summ))"

text \<open>
  \<open>set_info\<close> stores the info first and reads its status afterwards: when the status
  field is missing the exception leaves the new info in place.  The clock reading
  \<open>now\<close> is \<open>datetime.utcnow()\<close>.
\<close>

definition set_info ::
  "int \<Rightarrow> string \<Rightarrow> data_value \<Rightarrow> task_manager \<Rightarrow> (error + unit) \<times> task_manager" where
  "set_info now task_id new_info s =
     (case task_map s task_id of
        None \<Rightarrow> (Inl KeyError, s)
      | Some summ \<Rightarrow>
          (let s1 = s\<lparr>task_map := (task_map s)(task_id \<mapsto> summ\<lparr>info := new_info\<rparr>)\<rparr>
           in case get_field new_info ''status'' of
                Inl e \<Rightarrow> (Inl e, s1)
              | Inr st \<Rightarrow>
                  if st \<in> set [SUCCEEDED_STRING_VALUE, FAILED_STRING_VALUE]
                  then (Inr (), s1\<lparr>tasks_to_remove := insert (task_id, now) (tasks_to_remove s1),
                                   tasks_to_cancel := tasks_to_cancel s1 - {task_id}\<rparr>)
                  else (Inr (), s1)))"

definition remove_task :: "string \<Rightarrow> task_manager \<Rightarrow> unit \<times> task_manager" where
  "remove_task task_id s = ((), s\<lparr>task_map := (task_map s)(task_id := None)\<rparr>)"

text \<open>
  The sweep copies \<open>tasks_to_remove\<close> into a new set and iterates over the copy.  The
  order in which a Python set yields its elements is fixed by the hash table, not by
  the program, so the loop takes it as the list \<open>order\<close>; \<open>iteration_order\<close> says that
  a list is an enumeration of a set.  The loop stops at the first entry younger than
  the expiry time.  \<open>total_seconds()\<close> is the elapsed time in seconds; on a whole
  number of microseconds the comparison with 86400 is the comparison of the
  microseconds with 86400000000.
\<close>

definition iteration_order :: "'a set \<Rightarrow> 'a list \<Rightarrow> bool" where
  "iteration_order S xs \<longleftrightarrow> distinct xs \<and> set xs = S"

fun remove_expired_loop :: "int \<Rightarrow> (string \<times> int) list \<Rightarrow> task_manager \<Rightarrow> task_manager" where
  "remove_expired_loop curr_time [] s = s"
| "remove_expired_loop curr_time ((task_id, t) # rest) s =
     (if curr_time - t < TASK_EXPIRE_DURATION_SEC * 1000000 then s
      else remove_expired_loop curr_time rest
             (s\<lparr>tasks_to_remove := tasks_to_remove s - {(task_id, t)},
                task_map := (task_map s)(task_id := None)\<rparr>))"

definition remove_expired_task ::
  "int \<Rightarrow> (string \<times> int) list \<Rightarrow> task_manager \<Rightarrow> task_manager" where
  "remove_expired_task curr_time order s = remove_expired_loop curr_time order s"

text \<open>
  \<open>create_task\<close>.  The description arrives converted to a data value
  (\<open>TypeConverter.convert_to_vapi\<close>), \<open>user\<close> is the user name of the security context
  when there is one, \<open>uuid\<close> is \<open>str(uuid.uuid4())\<close>, and \<open>now\<close> and \<open>order\<close> are the
  clock reading and the iteration order of the sweep that ends the call.
\<close>

definition build_task_info ::
  "data_value option \<Rightarrow> string option \<Rightarrow> string \<Rightarrow> string \<Rightarrow> bool \<Rightarrow> data_value" where
  "build_task_info description user service_id operation_id cancelable =
     (let i0 = StructValue [];
          i1 = (case description of
                  Some d \<Rightarrow> set_field ''description'' d i0
                | None \<Rightarrow>
                    set_field ''description''
                      (set_field ''args'' (ListValue [])
                        (set_field ''default_message'' (StringValue [])
                          (set_field ''id'' (StringValue []) (StructValue [])))) i0);
          i2 = (case user of Some u \<Rightarrow> set_field ''user'' (StringValue u) i1 | None \<Rightarrow> i1);
          i3 = set_field ''service'' (StringValue service_id) i2;
          i4 = set_field ''operation'' (StringValue operation_id) i3;
          i5 = set_field ''cancelable'' (BooleanValue (if cancelable then True else False)) i4
      in set_field ''status'' PENDING_STRING_VALUE i5)"

definition create_task ::
  "string option \<Rightarrow> string \<Rightarrow> int \<Rightarrow> (string \<times> int) list \<Rightarrow>
   data_value option \<Rightarrow> string \<Rightarrow> string \<Rightarrow> bool \<Rightarrow> string list \<Rightarrow> string option \<Rightarrow>
   task_manager \<Rightarrow> string \<times> task_manager" where
  "create_task user uuid now order description service_id operation_id cancelable
       error_types id_opt s =
     (let task_info = build_task_info description user service_id operation_id cancelable;
          base_id = (case id_opt of Some i \<Rightarrow> i | None \<Rightarrow> uuid);
          task_id = create_task_id base_id service_id;
          summ = \<lparr>info = task_info, errors = error_types\<rparr>;
          s1 = (case task_map s task_id of
                  None \<Rightarrow> s\<lparr>task_map := (task_map s)(task_id \<mapsto> summ)\<rparr>
                | Some old \<Rightarrow> s)
      in (task_id, remove_expired_task now order s1))"

definition get_infos :: "task_manager \<Rightarrow> (string \<rightharpoonup> data_value)" where
  "get_infos s = (\<lambda>k. map_option info (task_map s k))"

definition mark_for_cancellation ::
  "string \<Rightarrow> task_manager \<Rightarrow> (error + unit) \<times> task_manager" where
  "mark_for_cancellation task_id s =
     (case get_info task_id s of
        Inl e \<Rightarrow> (Inl e, s)
      | Inr i \<Rightarrow>
          (case get_field i ''cancelable'' of
             Inl e \<Rightarrow> (Inl e, s)
           | Inr c \<Rightarrow>
               if c = TRUE_BOOLEAN_VALUE
               then (Inr (), s\<lparr>tasks_to_cancel := insert task_id (tasks_to_cancel s)\<rparr>)
               else (Inr (), s)))"

definition is_marked_for_cancellation :: "string \<Rightarrow> task_manager \<Rightarrow> bool" where
  "is_marked_for_cancellation task_id s \<longleftrightarrow> task_id \<in> tasks_to_cancel s"

subsection \<open>Sequences of calls\<close>

text \<open>
  The calls that change the manager, and the manager that a sequence of calls makes of
  a given one (the calls that only read leave it as it is).
\<close>

datatype task_call =
    CreateTask "string option" string int "(string \<times> int) list" "data_value option" string
      string bool "string list" "string option"
  | SetInfo int string data_value
  | RemoveTask string
  | MarkForCancellation string

fun apply_call :: "task_call \<Rightarrow> task_manager \<Rightarrow> task_manager" where
  "apply_call (CreateTask user uuid now order description service_id op_id cancelable
                 error_types id_opt) s =
     snd (create_task user uuid now order description service_id op_id cancelable
            error_types id_opt s)"
| "apply_call (SetInfo now task_id new_info) s = snd (set_info now task_id new_info s)"
| "apply_call (RemoveTask task_id) s = snd (remove_task task_id s)"
| "apply_call (MarkForCancellation task_id) s = snd (mark_for_cancellation task_id s)"

definition run_calls :: "task_call list \<Rightarrow> task_manager \<Rightarrow> task_manager" where
  "run_calls cs s = foldl (\<lambda>s c. apply_call c s) s cs"

text \<open>
  Two conditions on a call made in a manager: the call marks the id (it is a
  \<open>mark_for_cancellation\<close> of the id whose task is in the map with \<open>cancelable\<close> true),
  and the call clears the mark of the id (it is a \<open>set_info\<close> of the id whose task is in
  the map, with a terminal status).  \<open>marked_and_not_cleared\<close> says of a sequence of
  calls made from the initial manager that some call marked the id and no later call
  cleared the mark.
\<close>

fun marks :: "string \<Rightarrow> task_call \<Rightarrow> task_manager \<Rightarrow> bool" where
  "marks tid (MarkForCancellation t) s =
     (t = tid \<and>
      (case task_map s tid of
         None \<Rightarrow> False
       | Some summ \<Rightarrow> get_field (info summ) ''cancelable'' = Inr (BooleanValue True)))"
| "marks tid c s = False"

fun clears :: "string \<Rightarrow> task_call \<Rightarrow> task_manager \<Rightarrow> bool" where
  "clears tid (SetInfo now t new_info) s =
     (t = tid \<and> task_map s tid \<noteq> None \<and>
      (get_field new_info ''status'' = Inr (StringValue ''SUCCEEDED'') \<or>
       get_field new_info ''status'' = Inr (StringValue ''FAILED'')))"
| "clears tid c s = False"

definition marked_and_not_cleared :: "string \<Rightarrow> task_call list \<Rightarrow> bool" where
  "marked_and_not_cleared tid cs \<longleftrightarrow>
     list_ex (\<lambda>i. marks tid (cs ! i) (run_calls (take i cs) init_task_manager) \<and>
                  list_all (\<lambda>j. \<not> clears tid (cs ! j) (run_calls (take j cs) init_task_manager))
                    [Suc i..<length cs])
       [0..<length cs]"

section \<open>Strings\<close>

text \<open>
  The string methods the routing code calls.  A character stands for a code point
  below 256.  \<open>lower\<close> and \<open>strip\<close> are Python's on these code points; \<open>upper\<close> is Python's
  on all of them but the three letters whose upper-case form lies beyond 255 (sharp s,
  micro sign, y with diaeresis), which occur in no HTTP header name.
\<close>

definition replace_char :: "char \<Rightarrow> char \<Rightarrow> string \<Rightarrow> string" where
  "replace_char a b s = map (\<lambda>c. if c = a then b else c) s"

definition upper_case_letters :: string where
  "upper_case_letters =
     ''ABCDEFGHIJKLMNOPQRSTUVWXYZ'' @
     [CHR 0xC0, CHR 0xC1, CHR 0xC2, CHR 0xC3, CHR 0xC4, CHR 0xC5, CHR 0xC6, CHR 0xC7,
      CHR 0xC8, CHR 0xC9, CHR 0xCA, CHR 0xCB, CHR 0xCC, CHR 0xCD, CHR 0xCE, CHR 0xCF,
      CHR 0xD0, CHR 0xD1, CHR 0xD2, CHR 0xD3, CHR 0xD4, CHR 0xD5, CHR 0xD6,
      CHR 0xD8, CHR 0xD9, CHR 0xDA, CHR 0xDB, CHR 0xDC, CHR 0xDD, CHR 0xDE]"

definition lower_case_letters :: string where
  "lower_case_letters =
     ''abcdefghijklmnopqrstuvwxyz'' @
     [CHR 0xE0, CHR 0xE1, CHR 0xE2, CHR 0xE3, CHR 0xE4, CHR 0xE5, CHR 0xE6, CHR 0xE7,
      CHR 0xE8, CHR 0xE9, CHR 0xEA, CHR 0xEB, CHR 0xEC, CHR 0xED, CHR 0xEE, CHR 0xEF,
      CHR 0xF0, CHR 0xF1, CHR 0xF2, CHR 0xF3, CHR 0xF4, CHR 0xF5, CHR 0xF6,
      CHR 0xF8, CHR 0xF9, CHR 0xFA, CHR 0xFB, CHR 0xFC, CHR 0xFD, CHR 0xFE]"

definition lower_char :: "char \<Rightarrow> char" where
  "lower_char c =
     (case map_of (zip upper_case_letters lower_case_letters) c of
        Some l \<Rightarrow> l | None \<Rightarrow> c)"

definition upper_char :: "char \<Rightarrow> char" where
  "upper_char c =
     (case map_of (zip lower_case_letters upper_case_letters) c of
        Some l \<Rightarrow> l | None \<Rightarrow> c)"

definition upper :: "string \<Rightarrow> string" where
  "upper s = map upper_char s"

definition lower :: "string \<Rightarrow> string" where
  "lower s = map lower_char s"

text \<open>\<open>s.split(c)\<close>: the pieces between the occurrences of \<open>c\<close>, never an empty list.\<close>

fun split_on :: "char \<Rightarrow> string \<Rightarrow> string list" where
  "split_on c [] = [[]]"
| "split_on c (x # xs) =
     (if x = c then [] # split_on c xs
      else (case split_on c xs of y # ys \<Rightarrow> (x # y) # ys | [] \<Rightarrow> [[x]]))"

definition is_space :: "char \<Rightarrow> bool" where
  "is_space c =
     (let n = (of_char c :: nat)
      in (9 \<le> n \<and> n \<le> 13) \<or> (28 \<le> n \<and> n \<le> 32) \<or> n = 133 \<or> n = 160)"

definition strip :: "string \<Rightarrow> string" where
  "strip s = rev (dropWhile is_space (rev (dropWhile is_space s)))"

fun join :: "string \<Rightarrow> string list \<Rightarrow> string" where
  "join sep [] = []"
| "join sep [x] = x"
| "join sep (x # y # ys) = x @ sep @ join sep (y # ys)"

text \<open>\<open>s.find(x)\<close>: the lowest index at which \<open>x\<close> occurs in \<open>s\<close>, \<open>-1\<close> when it does not.\<close>

fun py_find :: "string \<Rightarrow> string \<Rightarrow> int" where
  "py_find [] x = (if x = [] then 0 else - 1)"
| "py_find (c # cs) x =
     (if take (length x) (c # cs) = x then 0
      else (let r = py_find cs x in if r < 0 then - 1 else r + 1))"

section \<open>REST rule generator (vmware/vapi/rest/rules.py)\<close>

subsection \<open>Data\<close>

definition http_method_map :: "string \<rightharpoonup> string" where
  "http_method_map = map_of
     [(''GET'', ''list''), (''PATCH'', ''update''), (''DELETE'', ''delete''),
      (''POST'', ''create''), (''PUT'', ''set''), (''HEAD'', ''get'')]"

text \<open>
  The metamodel type of a parameter, as far as \<open>_get_id_suffix\<close> reads it: its category
  and, for a built-in type, which one.
\<close>

datatype category = BUILTIN | USER_DEFINED | GENERIC

datatype builtin_type =
    VOID | BOOLEAN | LONG | DOUBLE | STRING | BINARY | SECRET | DATE_TIME | ID | URI
  | ANY_ERROR | DYNAMIC_STRUCTURE | OPAQUE

record type_info =
  category :: category
  builtin_type :: "builtin_type option"

text \<open>\<open>RestAnnotationType\<close>.\<close>

datatype mapping_type = NONE | REQUEST | VERB

text \<open>
  \<open>MetadataStore.OperationSummary\<close> with the fields the modelled code reads.  The
  parameter map is ordered (an \<open>OrderedDict\<close>) and gives each parameter's type; the two
  annotation fields hold the metadata of a RequestMapping and of a Verb annotation.
\<close>

record ('r, 'v) operation_summary =
  param_info_map :: "(string \<times> type_info) list"
  request_mapping_metadata :: "'r option"
  verb_metadata :: "'v option"
  success_response_code :: "int option"

definition has_request_mapping_metadata :: "('r, 'v) operation_summary \<Rightarrow> bool" where
  "has_request_mapping_metadata summ \<longleftrightarrow> request_mapping_metadata summ \<noteq> None"

definition has_verb_metadata :: "('r, 'v) operation_summary \<Rightarrow> bool" where
  "has_verb_metadata summ \<longleftrightarrow> verb_metadata summ \<noteq> None"

text \<open>\<open>DispatchInfo\<close> and its constructor, which turns missing lists into empty ones.\<close>

record dispatch_info =
  mapping_type :: mapping_type
  operation_id :: string
  params :: "string list"
  headers :: "string list"
  action_value :: "string option"

definition DispatchInfo ::
  "mapping_type \<Rightarrow> string \<Rightarrow> string list option \<Rightarrow> string list option \<Rightarrow> string option
   \<Rightarrow> dispatch_info" where
  "DispatchInfo mt op ps hs av =
     \<lparr>mapping_type = mt, operation_id = op,
      params = (case ps of Some l \<Rightarrow> l | None \<Rightarrow> []),
      headers = (case hs of Some l \<Rightarrow> l | None \<Rightarrow> []),
      action_value = av\<rparr>"

text \<open>A route: URL, HTTP method and dispatch info.\<close>

type_synonym route = "string \<times> string \<times> dispatch_info"

subsection \<open>Mapping rules\<close>

definition generate_service_base_url :: "string \<Rightarrow> string \<Rightarrow> string" where
  "generate_service_base_url rest_prefix service_id =
     rest_prefix @ lower (replace_char CHR ''.'' CHR ''/'' (replace_char CHR ''_'' CHR ''-'' service_id))"

fun get_id_suffix :: "(string \<times> type_info) list \<Rightarrow> string" where
  "get_id_suffix [] = []"
| "get_id_suffix ((param_name, param_info) # rest) =
     (if category param_info = BUILTIN \<and> builtin_type param_info = Some ID
      then ''/<string:'' @ param_name @ ''>''
      else get_id_suffix rest)"

text \<open>The rule classes, in the order \<open>RoutingRuleGenerator\<close> lists them.\<close>

datatype mapping_rule =
    CustomRequestMappingRule | VerbMappingRule | ListMappingRule | PostMappingRule
  | DeleteMappingRule | GetMappingRule | PatchMappingRule | PutMappingRule
  | PostActionMappingRule

definition mapping_rules :: "mapping_rule list" where
  "mapping_rules =
     [CustomRequestMappingRule, VerbMappingRule, ListMappingRule, PostMappingRule,
      DeleteMappingRule, GetMappingRule, PatchMappingRule, PutMappingRule,
      PostActionMappingRule]"

definition crud_ops :: "string list" where
  "crud_ops = [''create'', ''get'', ''list'', ''update'', ''set'', ''delete'']"

fun rule_match :: "mapping_rule \<Rightarrow> string \<Rightarrow> ('r, 'v) operation_summary \<Rightarrow> bool" where
  "rule_match CustomRequestMappingRule op summ = has_request_mapping_metadata summ"
| "rule_match VerbMappingRule op summ = has_verb_metadata summ"
| "rule_match ListMappingRule op summ = (op = ''list'')"
| "rule_match PostMappingRule op summ = (op = ''create'')"
| "rule_match DeleteMappingRule op summ = (op = ''delete'')"
| "rule_match GetMappingRule op summ = (op = ''get'')"
| "rule_match PatchMappingRule op summ = (op = ''update'')"
| "rule_match PutMappingRule op summ = (op = ''set'')"
| "rule_match PostActionMappingRule op summ = (op \<notin> set crud_ops)"

text \<open>
  The \<open>url\<close> method of each rule.  \<open>non_task\<close> is \<open>get_non_task_operation_name\<close> of the
  task helper module.  The two rules for annotated operations build their route from
  the elements of the annotation; \<open>custom_url\<close> and \<open>verb_url\<close> stand for their \<open>url\<close>
  methods, which may raise.  The rules that use a verb other than POST fall back to a
  POST on the base URL when no parameter is an identifier.
\<close>

definition id_rule_url ::
  "(string \<Rightarrow> string) \<Rightarrow> string \<Rightarrow> string \<Rightarrow> string \<Rightarrow> string \<Rightarrow>
   ('r, 'v) operation_summary \<Rightarrow> route" where
  "id_rule_url non_task verb rest_prefix service_id op summ =
     (let service_url = generate_service_base_url rest_prefix service_id;
          id_suffix = get_id_suffix (param_info_map summ);
          dispatch_info = DispatchInfo NONE (non_task op) None None None
      in if id_suffix \<noteq> [] then (service_url @ id_suffix, verb, dispatch_info)
         else (service_url, ''POST'', dispatch_info))"

fun rule_url ::
  "(string \<Rightarrow> string) \<Rightarrow>
   (string \<Rightarrow> string \<Rightarrow> string \<Rightarrow> ('r, 'v) operation_summary \<Rightarrow> error + route) \<Rightarrow>
   (string \<Rightarrow> string \<Rightarrow> string \<Rightarrow> ('r, 'v) operation_summary \<Rightarrow> error + route) \<Rightarrow>
   mapping_rule \<Rightarrow> string \<Rightarrow> string \<Rightarrow> string \<Rightarrow> ('r, 'v) operation_summary \<Rightarrow>
   error + route" where
  "rule_url non_task custom_url verb_url CustomRequestMappingRule rest_prefix service_id op summ =
     custom_url rest_prefix service_id op summ"
| "rule_url non_task custom_url verb_url VerbMappingRule rest_prefix service_id op summ =
     verb_url rest_prefix service_id op summ"
| "rule_url non_task custom_url verb_url ListMappingRule rest_prefix service_id op summ =
     Inr (generate_service_base_url rest_prefix service_id, ''GET'',
          DispatchInfo NONE (non_task op) None None None)"
| "rule_url non_task custom_url verb_url PostMappingRule rest_prefix service_id op summ =
     Inr (generate_service_base_url rest_prefix service_id, ''POST'',
          DispatchInfo NONE (non_task op) None None None)"
| "rule_url non_task custom_url verb_url DeleteMappingRule rest_prefix service_id op summ =
     Inr (id_rule_url non_task ''DELETE'' rest_prefix service_id op summ)"
| "rule_url non_task custom_url verb_url GetMappingRule rest_prefix service_id op summ =
     Inr (id_rule_url non_task ''GET'' rest_prefix service_id op summ)"
| "rule_url non_task custom_url verb_url PatchMappingRule rest_prefix service_id op summ =
     Inr (id_rule_url non_task ''PATCH'' rest_prefix service_id op summ)"
| "rule_url non_task custom_url verb_url PutMappingRule rest_prefix service_id op summ =
     Inr (id_rule_url non_task ''PUT'' rest_prefix service_id op summ)"
| "rule_url non_task custom_url verb_url PostActionMappingRule rest_prefix service_id op summ =
     Inr (generate_service_base_url rest_prefix service_id @ get_id_suffix (param_info_map summ),
          ''POST'', DispatchInfo NONE (non_task op) None None None)"

text \<open>
  \<open>RoutingRuleGenerator\<close>: the prefix ends with a slash, and \<open>generate_mapping_rule\<close>
  returns the route of the first rule that matches, \<open>None\<close> when no rule does.  The
  session service never gets the rule for Verb annotations.
\<close>

definition routing_rest_prefix :: "string \<Rightarrow> string" where
  "routing_rest_prefix rest_prefix =
     (if rest_prefix \<noteq> [] \<and> last rest_prefix = CHR ''/'' then rest_prefix
      else rest_prefix @ ''/'')"

fun generate_mapping_loop ::
  "(string \<Rightarrow> string) \<Rightarrow>
   (string \<Rightarrow> string \<Rightarrow> string \<Rightarrow> ('r, 'v) operation_summary \<Rightarrow> error + route) \<Rightarrow>
   (string \<Rightarrow> string \<Rightarrow> string \<Rightarrow> ('r, 'v) operation_summary \<Rightarrow> error + route) \<Rightarrow>
   mapping_rule list \<Rightarrow> string \<Rightarrow> string \<Rightarrow> string \<Rightarrow> ('r, 'v) operation_summary \<Rightarrow>
   error + route option" where
  "generate_mapping_loop non_task custom_url verb_url [] rest_prefix service_id op summ =
     Inr None"
| "generate_mapping_loop non_task custom_url verb_url (mapping_rule # rest) rest_prefix
       service_id op summ =
     (if service_id = ''com.vmware.cis.session'' \<and> mapping_rule = VerbMappingRule
      then generate_mapping_loop non_task custom_url verb_url rest rest_prefix service_id op summ
      else if rule_match mapping_rule op summ
      then (case rule_url non_task custom_url verb_url mapping_rule rest_prefix service_id op summ of
              Inl e \<Rightarrow> Inl e
            | Inr r \<Rightarrow> Inr (Some r))
      else generate_mapping_loop non_task custom_url verb_url rest rest_prefix service_id op summ)"

definition generate_mapping_rule ::
  "(string \<Rightarrow> string) \<Rightarrow>
   (string \<Rightarrow> string \<Rightarrow> string \<Rightarrow> ('r, 'v) operation_summary \<Rightarrow> error + route) \<Rightarrow>
   (string \<Rightarrow> string \<Rightarrow> string \<Rightarrow> ('r, 'v) operation_summary \<Rightarrow> error + route) \<Rightarrow>
   string \<Rightarrow> string \<Rightarrow> string \<Rightarrow> ('r, 'v) operation_summary \<Rightarrow> error + route option" where
  "generate_mapping_rule non_task custom_url verb_url rest_prefix service_id op summ =
     generate_mapping_loop non_task custom_url verb_url mapping_rules
       (routing_rest_prefix rest_prefix) service_id op summ"

subsection \<open>Matching a request against a dispatch info\<close>

text \<open>
  The request as the matching code reads it: the HTTP method and the headers.  The
  header collection is werkzeug's \<open>EnvironHeaders\<close>, which is not among the sources.  It
  reads the WSGI environment, in which the header \<open>X-Foo\<close> is the entry \<open>HTTP_X_FOO\<close>: a
  lookup turns the name to upper case and every \<open>-\<close> into \<open>_\<close>, so that it ignores the
  case of a name and takes \<open>-\<close> and \<open>_\<close> for the same character.  The headers are kept
  as the map from such an environment name (without the prefix) to the value.  Query
  parameters are the decoded query string, a map from key to value, and the URL
  arguments are a dictionary of which only emptiness is tested.
\<close>

record request =
  request_method :: string
  request_headers :: "string \<rightharpoonup> string"

definition environ_name :: "string \<Rightarrow> string" where
  "environ_name name = replace_char CHR ''-'' CHR ''_'' (upper name)"

definition headers_contains :: "(string \<rightharpoonup> string) \<Rightarrow> string \<Rightarrow> bool" where
  "headers_contains hdrs name \<longleftrightarrow> hdrs (environ_name name) \<noteq> None"

definition headers_get :: "(string \<rightharpoonup> string) \<Rightarrow> string \<Rightarrow> string option" where
  "headers_get hdrs name = hdrs (environ_name name)"

definition ACTION_PARAM :: string where
  "ACTION_PARAM = ''action''"

definition TASK_REST_QUERY_PARAM :: string where
  "TASK_REST_QUERY_PARAM = ''vmw-task''"

text \<open>\<open>_default_matching\<close>; a method outside \<open>http_method_map\<close> raises \<open>KeyError\<close>.\<close>

definition default_matching ::
  "dispatch_info \<Rightarrow> string \<Rightarrow> (string \<rightharpoonup> string) \<Rightarrow> (string \<times> string) list \<Rightarrow>
   error + (bool \<times> int)" where
  "default_matching d http_method query_params uri_params =
     (case http_method_map http_method of
        None \<Rightarrow> Inl KeyError
      | Some op0 \<Rightarrow>
          (let op1 = (if uri_params \<noteq> [] \<and> op0 = ''list'' then ''get'' else op0);
               action = query_params ''~action'';
               op2 = (case action of
                        Some a \<Rightarrow> if a \<noteq> [] then replace_char CHR ''-'' CHR ''_'' a else op1
                      | None \<Rightarrow> op1)
           in Inr (op2 = operation_id d, 1)))"

text \<open>\<open>_request_matching\<close>.\<close>

definition request_matching ::
  "dispatch_info \<Rightarrow> string \<Rightarrow> (string \<rightharpoonup> string) \<Rightarrow> (string \<times> string) list \<Rightarrow>
   error + (bool \<times> int)" where
  "request_matching d http_method query_params uri_params =
     (case query_params ACTION_PARAM of
        Some action_requested \<Rightarrow>
          if action_requested \<noteq> [] then Inr (Some action_requested = action_value d, 1)
          else default_matching d http_method query_params uri_params
      | None \<Rightarrow> default_matching d http_method query_params uri_params)"

text \<open>
  \<open>_verb_matching\<close>.  \<open>param_step\<close> and \<open>header_step\<close> are the bodies of its two loops:
  from the arity so far they give the value of \<open>match\<close> at the end of the iteration
  (\<open>None\<close>, \<open>True\<close> or \<open>False\<close>) and the new arity.  The loops return \<open>(False, arity)\<close>
  at the first iteration that ends with \<open>match\<close> false.
\<close>

definition param_step :: "(string \<rightharpoonup> string) \<Rightarrow> string \<Rightarrow> int \<Rightarrow> bool option \<times> int" where
  "param_step query_params param arity =
     (let param_split = split_on CHR ''='' param;
          key = strip (hd param_split);
          (match1, arity1) =
             (if query_params key \<noteq> None then (Some True, arity + 3) else (None, arity - 1))
      in if length param_split > 1
         then (let q_val = query_params key
               in if q_val = Some (param_split ! 1) then (match1, arity1 + 4)
                  else if match1 = Some True \<and> param_split ! 1 \<noteq> [] then (Some False, arity1)
                  else (match1, arity1))
         else (match1, arity1))"

definition normalize_header_value :: "string \<Rightarrow> string" where
  "normalize_header_value v = join '','' (map strip (split_on CHR '','' v))"

definition header_step :: "(string \<rightharpoonup> string) \<Rightarrow> string \<Rightarrow> int \<Rightarrow> bool option \<times> int" where
  "header_step hdrs header arity =
     (let header_split = split_on CHR '':'' header;
          (match1, arity1) =
             (if headers_contains hdrs (lower (hd header_split)) then (Some True, arity + 1)
              else (None, arity - 1))
      in if length header_split > 1
         then (let declared = normalize_header_value (header_split ! 1);
                   header_val =
                     (case headers_get hdrs (strip (hd header_split)) of
                        None \<Rightarrow> None
                      | Some v \<Rightarrow> if v \<noteq> [] then Some (normalize_header_value v) else Some v)
               in if (case header_val of
                        None \<Rightarrow> False
                      | Some v \<Rightarrow> v \<noteq> [] \<and> py_find v declared \<ge> 0)
                  then (Some True, arity1 + 2)
                  else if match1 = Some True \<and> declared \<noteq> [] then (Some False, arity1)
                  else (match1, arity1))
         else (match1, arity1))"

fun verb_headers_loop :: "(string \<rightharpoonup> string) \<Rightarrow> string list \<Rightarrow> int \<Rightarrow> bool \<times> int" where
  "verb_headers_loop hdrs [] arity = (True, arity)"
| "verb_headers_loop hdrs (header # rest) arity =
     (case header_step hdrs header arity of
        (m, arity') \<Rightarrow>
          if m = Some False then (False, arity') else verb_headers_loop hdrs rest arity')"

fun verb_params_loop ::
  "(string \<rightharpoonup> string) \<Rightarrow> (string \<rightharpoonup> string) \<Rightarrow> string list \<Rightarrow> string list \<Rightarrow> int \<Rightarrow>
   bool \<times> int" where
  "verb_params_loop query_params hdrs [] hs arity = verb_headers_loop hdrs hs arity"
| "verb_params_loop query_params hdrs (param # rest) hs arity =
     (case param_step query_params param arity of
        (m, arity') \<Rightarrow>
          if m = Some False then (False, arity')
          else verb_params_loop query_params hdrs rest hs arity')"

definition verb_matching ::
  "dispatch_info \<Rightarrow> (string \<rightharpoonup> string) \<Rightarrow> (string \<rightharpoonup> string) \<Rightarrow> bool \<times> int" where
  "verb_matching d query_params hdrs =
     verb_params_loop query_params hdrs (params d) (headers d) 0"

text \<open>\<open>get_operation_id\<close>: the operation id when the dispatch info matches, the arity and
  the mapping type.\<close>

definition get_operation_id ::
  "dispatch_info \<Rightarrow> request \<Rightarrow> (string \<rightharpoonup> string) \<Rightarrow> (string \<times> string) list \<Rightarrow>
   error + (string option \<times> int \<times> mapping_type)" where
  "get_operation_id d req query_params uri_params =
     (case (if mapping_type d = VERB
            then Inr (verb_matching d query_params (request_headers req))
            else if mapping_type d = REQUEST
            then request_matching d (request_method req) query_params uri_params
            else default_matching d (request_method req) query_params uri_params) of
        Inl e \<Rightarrow> Inl e
      | Inr (retval, arity) \<Rightarrow>
          Inr (if retval then Some (operation_id d) else None, arity, mapping_type d))"

section \<open>REST handler (vmware/vapi/rest/handler.py)\<close>

text \<open>
  \<open>RESTHandler._find_matching_operation\<close> in its three stages.  The first picks the
  operation: directly when the route has one dispatch info that is not of a Verb
  annotation, else by the loop over the dispatch infos, which keeps the operation id,
  mapping type and arity of the best match so far.
\<close>

fun matching_loop ::
  "request \<Rightarrow> (string \<rightharpoonup> string) \<Rightarrow> (string \<times> string) list \<Rightarrow> dispatch_info list \<Rightarrow>
   string option \<times> mapping_type \<times> int \<Rightarrow> error + (string option \<times> mapping_type \<times> int)" where
  "matching_loop req query_params uri_params [] best = Inr best"
| "matching_loop req query_params uri_params (d # rest) (op_id, map_type, arity) =
     (case get_operation_id d req query_params uri_params of
        Inl e \<Rightarrow> Inl e
      | Inr (curr_op_id, curr_arity, curr_type) \<Rightarrow>
          if curr_op_id \<noteq> None \<and> curr_arity \<ge> arity
          then matching_loop req query_params uri_params rest (curr_op_id, curr_type, curr_arity)
          else matching_loop req query_params uri_params rest (op_id, map_type, arity))"

definition select_operation ::
  "request \<Rightarrow> (string \<times> string) list \<Rightarrow> (string \<rightharpoonup> string) \<Rightarrow> dispatch_info list \<Rightarrow>
   error + (string \<times> mapping_type)" where
  "select_operation req uri_parameters query_string_flat_dict dispatch_info_list =
     (if length dispatch_info_list = 1 \<and> mapping_type (hd dispatch_info_list) \<noteq> VERB
      then Inr (operation_id (hd dispatch_info_list), mapping_type (hd dispatch_info_list))
      else (case matching_loop req query_string_flat_dict uri_parameters dispatch_info_list
                   (None, NONE, 0) of
              Inl e \<Rightarrow> Inl e
            | Inr (None, mt, arity) \<Rightarrow> Inl NotFound
            | Inr (Some op, mt, arity) \<Rightarrow> Inr (op, mt)))"

text \<open>
  The second stage rewrites the id for a task invocation; \<open>task_name\<close> is
  \<open>get_task_operation_name\<close> of the task helper module.
\<close>

definition task_rewrite ::
  "(string \<Rightarrow> string) \<Rightarrow> (string \<rightharpoonup> string) \<Rightarrow> string \<Rightarrow> error + string" where
  "task_rewrite task_name query_string_flat_dict op =
     (case query_string_flat_dict TASK_REST_QUERY_PARAM of
        None \<Rightarrow> Inr op
      | Some is_task \<Rightarrow> if lower is_task = ''true'' then Inr (task_name op) else Inl BadRequest)"

text \<open>
  The last stage looks the id up in the operations of the service in the metadata
  store's service map.
\<close>

definition find_matching_operation ::
  "(string \<Rightarrow> string) \<Rightarrow> (string \<rightharpoonup> (string \<rightharpoonup> ('r, 'v) operation_summary)) \<Rightarrow>
   request \<Rightarrow> string \<Rightarrow> (string \<times> string) list \<Rightarrow> (string \<rightharpoonup> string) \<Rightarrow>
   dispatch_info list \<Rightarrow> error + (string \<times> mapping_type)" where
  "find_matching_operation task_name service_map req service_id uri_parameters
       query_string_flat_dict dispatch_info_list =
     (case select_operation req uri_parameters query_string_flat_dict dispatch_info_list of
        Inl e \<Rightarrow> Inl e
      | Inr (op, mt) \<Rightarrow>
          (case task_rewrite task_name query_string_flat_dict op of
             Inl e \<Rightarrow> Inl e
           | Inr op' \<Rightarrow>
               (case service_map service_id of
                  None \<Rightarrow> Inl KeyError
                | Some ops \<Rightarrow> if ops op' = None then Inl NotFound else Inr (op', mt))))"

text \<open>
  The status that \<open>_serialize_output\<close> computes.  A method result is an output or an
  error with its name; \<open>all_errors\<close> is the metadata store's map from error names to
  response codes and \<open>vapi_to_http\<close> the fixed map \<open>vapi_to_http_error_map\<close>.
\<close>

datatype method_result = MethodOutput data_value | MethodError string

definition serialize_output_status ::
  "(string \<rightharpoonup> int) \<Rightarrow> (string \<rightharpoonup> int) \<Rightarrow> request \<Rightarrow> ('r, 'v) operation_summary \<Rightarrow>
   method_result \<Rightarrow> int" where
  "serialize_output_status all_errors vapi_to_http req operation_summary method_result =
     (case method_result of
        MethodOutput output \<Rightarrow>
          (let status = (case success_response_code operation_summary of
                           Some c \<Rightarrow> c | None \<Rightarrow> 200)
           in if request_method req = ''DELETE'' then 204 else status)
      | MethodError error_name \<Rightarrow>
          (case all_errors error_name of
             Some c \<Rightarrow> c
           | None \<Rightarrow> (case vapi_to_http error_name of Some c \<Rightarrow> c | None \<Rightarrow> 500)))"

section \<open>The specification's tables\<close>

text \<open>
  The route table of the specification for operations without annotations: from the
  base URL, the path segment of the identifier, whether a parameter of identifier type
  exists, and the operation id, the URL and verb of the route.
\<close>

definition has_identifier_parameter :: "(string \<times> type_info) list \<Rightarrow> bool" where
  "has_identifier_parameter pim \<longleftrightarrow>
     list_ex (\<lambda>p. category (snd p) = BUILTIN \<and> builtin_type (snd p) = Some ID) pim"

definition spec_default_route :: "string \<Rightarrow> string \<Rightarrow> bool \<Rightarrow> string \<Rightarrow> string \<times> string" where
  "spec_default_route base id_segment has_id op =
     (if op = ''list'' then (base, ''GET'')
      else if op = ''create'' then (base, ''POST'')
      else if op = ''delete''
      then (if has_id then (base @ id_segment, ''DELETE'') else (base, ''POST''))
      else if op = ''get''
      then (if has_id then (base @ id_segment, ''GET'') else (base, ''POST''))
      else if op = ''update''
      then (if has_id then (base @ id_segment, ''PATCH'') else (base, ''POST''))
      else if op = ''set''
      then (if has_id then (base @ id_segment, ''PUT'') else (base, ''POST''))
      else (if has_id then (base @ id_segment, ''POST'') else (base, ''POST'')))"

text \<open>
  The operation id that default matching derives from a request, as the specification
  words it (\<open>claimed_operation_id\<close>: a present \<open>~action\<close> parameter always replaces the
  id of the verb), and with the replacement only for a value that is not empty
  (\<open>derived_operation_id\<close>).  The arguments are the HTTP method, whether the path
  carried an identifier, and the value of the \<open>~action\<close> parameter when present.
\<close>

definition claimed_operation_id :: "string \<Rightarrow> bool \<Rightarrow> string option \<Rightarrow> string option" where
  "claimed_operation_id http_method path_id action =
     (case action of
        Some a \<Rightarrow> Some (replace_char CHR ''-'' CHR ''_'' a)
      | None \<Rightarrow>
          if http_method = ''GET'' then Some (if path_id then ''get'' else ''list'')
          else if http_method = ''PATCH'' then Some ''update''
          else if http_method = ''DELETE'' then Some ''delete''
          else if http_method = ''POST'' then Some ''create''
          else if http_method = ''PUT'' then Some ''set''
          else if http_method = ''HEAD'' then Some ''get''
          else None)"

definition derived_operation_id :: "string \<Rightarrow> bool \<Rightarrow> string option \<Rightarrow> string option" where
  "derived_operation_id http_method path_id action =
     (if action \<noteq> None \<and> action \<noteq> Some []
      then map_option (replace_char CHR ''-'' CHR ''_'') action
      else if http_method = ''GET'' then Some (if path_id then ''get'' else ''list'')
      else if http_method = ''PATCH'' then Some ''update''
      else if http_method = ''DELETE'' then Some ''delete''
      else if http_method = ''POST'' then Some ''create''
      else if http_method = ''PUT'' then Some ''set''
      else if http_method = ''HEAD'' then Some ''get''
      else None)"



















section \<open>Example requests and operations\<close>

definition get_request :: request where
  "get_request = \<lparr>request_method = ''GET'', request_headers = Map.empty\<rparr>"

definition post_request :: request where
  "post_request = \<lparr>request_method = ''POST'', request_headers = Map.empty\<rparr>"

definition delete_request :: request where
  "delete_request = \<lparr>request_method = ''DELETE'', request_headers = Map.empty\<rparr>"

text \<open>An operation without parameters and annotations, and one that declares the
  success status 202.\<close>

definition list_summary :: "(unit, unit) operation_summary" where
  "list_summary = \<lparr>param_info_map = [], request_mapping_metadata = None,
     verb_metadata = None, success_response_code = None\<rparr>"

definition accepted_summary :: "(unit, unit) operation_summary" where
  "accepted_summary = \<lparr>param_info_map = [], request_mapping_metadata = None,
     verb_metadata = None, success_response_code = Some 202\<rparr>"

text \<open>An operation whose second parameter is an identifier.\<close>

definition vm_summary :: "(unit, unit) operation_summary" where
  "vm_summary =
     \<lparr>param_info_map =
        [(''force'', \<lparr>category = BUILTIN, builtin_type = Some BOOLEAN\<rparr>),
         (''vm'', \<lparr>category = BUILTIN, builtin_type = Some ID\<rparr>)],
      request_mapping_metadata = None, verb_metadata = None,
      success_response_code = None\<rparr>"

text \<open>
  Dispatch infos of operations with Verb annotations that declare query parameters, two
  dispatch infos without predicates, and a decoded query string.
\<close>

definition verb_first :: dispatch_info where
  "verb_first = DispatchInfo VERB ''first'' (Some [''x'']) None None"

definition verb_second :: dispatch_info where
  "verb_second = DispatchInfo VERB ''second'' (Some [''y'']) None None"

definition verb_both :: dispatch_info where
  "verb_both = DispatchInfo VERB ''both'' (Some [''x'', ''y=2'']) None None"

definition verb_other :: dispatch_info where
  "verb_other = DispatchInfo VERB ''other'' (Some [''z'']) None None"

definition plain_list :: dispatch_info where
  "plain_list = DispatchInfo NONE ''list'' None None None"

definition plain_create :: dispatch_info where
  "plain_create = DispatchInfo NONE ''create'' None None None"

definition query_xy :: "string \<rightharpoonup> string" where
  "query_xy = [''x'' \<mapsto> ''1'', ''y'' \<mapsto> ''2'']"






section \<open>Example managers\<close>

text \<open>
  The manager after a cancelable task was created, marked for cancellation and removed
  with \<open>remove_task\<close>.
\<close>

definition marked_then_removed :: task_manager where
  "marked_then_removed =
     snd (remove_task ''t1:svc''
       (snd (mark_for_cancellation ''t1:svc''
         (snd (create_task None ''u'' 0 [] None ''svc'' ''op'' True [] (Some ''t1'')
                 init_task_manager)))))"

text \<open>
  The calls that create a cancelable task, mark it and remove it, and the calls that
  create it, mark it, finish it and remove it.
\<close>

definition create_t1 :: task_call where
  "create_t1 = CreateTask None ''u'' 0 [] None ''svc'' ''op'' True [] (Some ''t1'')"

definition calls_mark_remove :: "task_call list" where
  "calls_mark_remove = [create_t1, MarkForCancellation ''t1:svc'', RemoveTask ''t1:svc'']"

definition calls_mark_finish_remove :: "task_call list" where
  "calls_mark_finish_remove =
     [create_t1, MarkForCancellation ''t1:svc'',
      SetInfo 7 ''t1:svc'' (StructValue [(''status'', StringValue ''FAILED'')]),
      RemoveTask ''t1:svc'']"

text \<open>
  An info with a terminal status, the manager in which task \<open>a:svc\<close> finished at time 0,
  and the manager in which \<open>a:svc\<close> finished at time 0 and \<open>b:svc\<close> one hour later.
\<close>

definition succeeded_info :: data_value where
  "succeeded_info = StructValue [(''status'', SUCCEEDED_STRING_VALUE)]"

definition one_finished :: task_manager where
  "one_finished =
     snd (set_info 0 ''a:svc'' succeeded_info
       (snd (create_task None ''u'' 0 [] None ''svc'' ''op'' False [] (Some ''a'')
               init_task_manager)))"

definition two_finished :: task_manager where
  "two_finished =
     snd (set_info 3600000000 ''b:svc'' succeeded_info
       (snd (set_info 0 ''a:svc'' succeeded_info
         (snd (create_task None ''u'' 0 [] None ''svc'' ''op'' False [] (Some ''b'')
           (snd (create_task None ''u'' 0 [] None ''svc'' ''op'' False [] (Some ''a'')
                   init_task_manager)))))))"

section \<open>Properties of the task manager\<close>

subsection \<open>The sweep and the cancellation set\<close>

lemma remove_expired_loop_cancel:
  "tasks_to_cancel (remove_expired_loop t xs s) = tasks_to_cancel s"
  by (induction t xs s rule: remove_expired_loop.induct) auto

lemma remove_expired_loop_task:
  "task_map (remove_expired_loop t xs s) k = task_map s k \<or>
   task_map (remove_expired_loop t xs s) k = None"
  by (induction t xs s rule: remove_expired_loop.induct) auto

lemma build_task_info_cancelable:
  "get_field (build_task_info d u sv op c) ''cancelable'' = Inr (BooleanValue c)"
  by (simp add: build_task_info_def Let_def split: option.splits)





subsection \<open>Operations on an id the map does not hold\<close>

text \<open>
  C10, as stated, fails: after create, mark and remove the id is absent from the task
  map and \<open>is_marked_for_cancellation\<close> still answers true.
\<close>

theorem absent_task_marked_counterexample:
  "task_map marked_then_removed ''t1:svc'' = None \<and>
   is_marked_for_cancellation ''t1:svc'' marked_then_removed"
  by (simp add: marked_then_removed_def remove_task_def mark_for_cancellation_def
      create_task_def create_task_id_def URI_DELIMITER_def init_task_manager_def
      remove_expired_task_def get_info_def build_task_info_def Let_def
      TRUE_BOOLEAN_VALUE_def is_marked_for_cancellation_def)

lemma apply_call_cancel:
  "tid \<in> tasks_to_cancel (apply_call c s) \<longleftrightarrow>
     marks tid c s \<or> (tid \<in> tasks_to_cancel s \<and> \<not> clears tid c s)"
proof (cases c)
  case (CreateTask user uuid now order description service_id op_id cancelable error_types id_opt)
  then show ?thesis
    by (simp add: create_task_def Let_def remove_expired_task_def remove_expired_loop_cancel
        split: option.splits)
next
  case (SetInfo now t new_info)
  then show ?thesis
    by (auto simp: set_info_def Let_def SUCCEEDED_STRING_VALUE_def FAILED_STRING_VALUE_def
        split: option.splits sum.splits)
next
  case (RemoveTask t)
  then show ?thesis by (simp add: remove_task_def)
next
  case (MarkForCancellation t)
  then show ?thesis
    by (auto simp: mark_for_cancellation_def get_info_def TRUE_BOOLEAN_VALUE_def
        split: option.splits sum.splits)
qed

lemma run_calls_snoc: "run_calls (cs @ [c]) s = apply_call c (run_calls cs s)"
  by (simp add: run_calls_def)

lemma marked_and_not_cleared_snoc:
  "marked_and_not_cleared tid (cs @ [c]) \<longleftrightarrow>
     marks tid c (run_calls cs init_task_manager) \<or>
     (marked_and_not_cleared tid cs \<and> \<not> clears tid c (run_calls cs init_task_manager))"
  by (auto simp: marked_and_not_cleared_def list_ex_iff list_all_iff nth_append less_Suc_eq)

lemma cancel_set_history:
  "tid \<in> tasks_to_cancel (run_calls cs init_task_manager) \<longleftrightarrow> marked_and_not_cleared tid cs"
proof (induction cs rule: rev_induct)
  case Nil
  then show ?case
    by (simp add: run_calls_def init_task_manager_def marked_and_not_cleared_def)
next
  case (snoc c cs)
  then show ?case
    by (simp add: run_calls_snoc apply_call_cancel marked_and_not_cleared_snoc)
qed

text \<open>
  C10, amended.  For a task id absent from the task map, \<open>get_summary\<close>, \<open>get_info\<close>,
  \<open>set_info\<close> and \<open>mark_for_cancellation\<close> raise \<open>KeyError\<close> and leave the manager as it
  was, and \<open>remove_task\<close> returns normally and changes nothing.
  \<open>is_marked_for_cancellation\<close> returns normally; in a manager that a sequence of calls
  made of the initial one it answers true exactly when one of the calls marked the id
  while its task was in the map with \<open>cancelable\<close> true and no later call cleared the
  mark by a \<open>set_info\<close> with a terminal status.  It is false for an id that was never
  marked, and stays true when the task of a marked id is removed.
\<close>

theorem absent_task_operations:
  assumes "task_map s task_id = None"
  shows "get_summary task_id s = Inl KeyError \<and>
         get_info task_id s = Inl KeyError \<and>
         set_info now task_id new_info s = (Inl KeyError, s) \<and>
         mark_for_cancellation task_id s = (Inl KeyError, s) \<and>
         remove_task task_id s = ((), s) \<and>
         (s = run_calls cs init_task_manager \<longrightarrow>
            (is_marked_for_cancellation task_id s \<longleftrightarrow> marked_and_not_cleared task_id cs))"
  using assms
  by (simp add: get_summary_def get_info_def set_info_def mark_for_cancellation_def
      remove_task_def is_marked_for_cancellation_def fun_upd_idem cancel_set_history)

lemma run_calls_mark_remove:
  "run_calls calls_mark_remove init_task_manager =
     \<lparr>task_map = Map.empty, tasks_to_remove = {}, tasks_to_cancel = {''t1:svc''}\<rparr>"
  by (simp add: calls_mark_remove_def run_calls_def create_t1_def create_task_def
      create_task_id_def URI_DELIMITER_def init_task_manager_def remove_expired_task_def
      Let_def mark_for_cancellation_def get_info_def build_task_info_cancelable
      TRUE_BOOLEAN_VALUE_def remove_task_def)

lemma run_calls_mark_finish_remove:
  "run_calls calls_mark_finish_remove init_task_manager =
     \<lparr>task_map = Map.empty, tasks_to_remove = {(''t1:svc'', 7)}, tasks_to_cancel = {}\<rparr>"
  by (simp add: calls_mark_finish_remove_def run_calls_def create_t1_def create_task_def
      create_task_id_def URI_DELIMITER_def init_task_manager_def remove_expired_task_def
      Let_def mark_for_cancellation_def get_info_def build_task_info_cancelable
      TRUE_BOOLEAN_VALUE_def remove_task_def set_info_def SUCCEEDED_STRING_VALUE_def
      FAILED_STRING_VALUE_def)

theorem absent_task_operations_witness:
  "task_map (run_calls calls_mark_remove init_task_manager) ''x:svc'' = None \<and>
   get_summary ''x:svc'' (run_calls calls_mark_remove init_task_manager) = Inl KeyError \<and>
   get_info ''x:svc'' (run_calls calls_mark_remove init_task_manager) = Inl KeyError \<and>
   fst (set_info 5 ''x:svc'' (StructValue []) (run_calls calls_mark_remove init_task_manager))
     = Inl KeyError \<and>
   fst (mark_for_cancellation ''x:svc'' (run_calls calls_mark_remove init_task_manager))
     = Inl KeyError \<and>
   \<not> marked_and_not_cleared ''x:svc'' calls_mark_remove \<and>
   \<not> is_marked_for_cancellation ''x:svc'' (run_calls calls_mark_remove init_task_manager) \<and>
   task_map (run_calls calls_mark_remove init_task_manager) ''t1:svc'' = None \<and>
   marked_and_not_cleared ''t1:svc'' calls_mark_remove \<and>
   is_marked_for_cancellation ''t1:svc'' (run_calls calls_mark_remove init_task_manager) \<and>
   task_map (run_calls calls_mark_finish_remove init_task_manager) ''t1:svc'' = None \<and>
   \<not> marked_and_not_cleared ''t1:svc'' calls_mark_finish_remove \<and>
   \<not> is_marked_for_cancellation ''t1:svc''
       (run_calls calls_mark_finish_remove init_task_manager)"
proof -
  have a: "task_map (run_calls calls_mark_remove init_task_manager) ''x:svc'' = None"
    and b: "task_map (run_calls calls_mark_remove init_task_manager) ''t1:svc'' = None"
    by (simp_all add: run_calls_mark_remove)
  have c: "task_map (run_calls calls_mark_finish_remove init_task_manager) ''t1:svc'' = None"
    by (simp add: run_calls_mark_finish_remove)
  have m1: "\<not> is_marked_for_cancellation ''x:svc'' (run_calls calls_mark_remove init_task_manager)"
    and m2: "is_marked_for_cancellation ''t1:svc'' (run_calls calls_mark_remove init_task_manager)"
    and m3: "\<not> is_marked_for_cancellation ''t1:svc''
               (run_calls calls_mark_finish_remove init_task_manager)"
    by (simp_all add: is_marked_for_cancellation_def run_calls_mark_remove
        run_calls_mark_finish_remove)
  from absent_task_operations [OF a, where now = 5 and new_info = "StructValue []"
      and cs = calls_mark_remove]
    absent_task_operations [OF b, where cs = calls_mark_remove]
    absent_task_operations [OF c, where cs = calls_mark_finish_remove]
    a b c m1 m2 m3
  show ?thesis by simp
qed

subsection \<open>Creating a task under an id the map holds\<close>

lemma remove_expired_loop_keeps:
  assumes "\<forall>t. (task_id, t) \<in> set order \<longrightarrow> now - t < TASK_EXPIRE_DURATION_SEC * 1000000"
  shows "task_map (remove_expired_loop now order s) task_id = task_map s task_id"
  using assms
  by (induction now order s rule: remove_expired_loop.induct) auto

lemma one_finished_eq:
  "one_finished = \<lparr>task_map = [''a:svc'' \<mapsto> \<lparr>info = succeeded_info, errors = []\<rparr>],
      tasks_to_remove = {(''a:svc'', 0)}, tasks_to_cancel = {}\<rparr>"
  by (simp add: one_finished_def set_info_def create_task_def create_task_id_def
      URI_DELIMITER_def init_task_manager_def remove_expired_task_def Let_def
      succeeded_info_def SUCCEEDED_STRING_VALUE_def FAILED_STRING_VALUE_def)

text \<open>
  C9, as stated, fails: task \<open>a:svc\<close> finished at time 0 and is in the map; a
  \<open>create_task\<close> with the same base id and service 25 hours later returns the id, and
  the sweep that ends the call has removed the task, so that the summary is not left
  in the map.
\<close>

theorem create_task_collision_counterexample:
  "task_map one_finished ''a:svc'' = Some \<lparr>info = succeeded_info, errors = []\<rparr> \<and>
   iteration_order (tasks_to_remove one_finished) [(''a:svc'', 0)] \<and>
   fst (create_task None ''u'' 90000000000 [(''a:svc'', 0)] None ''svc'' ''op'' False []
          (Some ''a'') one_finished) = ''a:svc'' \<and>
   task_map (snd (create_task None ''u'' 90000000000 [(''a:svc'', 0)] None ''svc'' ''op''
                    False [] (Some ''a'') one_finished)) ''a:svc'' = None"
  by (simp add: one_finished_eq iteration_order_def create_task_def create_task_id_def
      URI_DELIMITER_def remove_expired_task_def Let_def TASK_EXPIRE_DURATION_SEC_def)

text \<open>
  C9, amended.  When the combined task id is in the task map, \<open>create_task\<close> raises
  nothing, returns the id and discards the new info: the manager it leaves is the one
  the expiry sweep makes of the unchanged manager.  The existing summary is still in
  the map, unchanged, when no removal entry of the id that the sweep may visit is 24
  hours old; in every case the map holds the old summary or nothing for the id.
\<close>

theorem create_task_collision:
  assumes "task_id = create_task_id (case id_opt of Some i \<Rightarrow> i | None \<Rightarrow> uuid) service_id"
    and "task_map s task_id = Some old"
  shows "create_task user uuid now order description service_id op_id cancelable
           error_types id_opt s = (task_id, remove_expired_task now order s) \<and>
         ((\<forall>t. (task_id, t) \<in> set order \<longrightarrow> now - t < TASK_EXPIRE_DURATION_SEC * 1000000) \<longrightarrow>
            task_map (remove_expired_task now order s) task_id = Some old) \<and>
         (task_map (remove_expired_task now order s) task_id = Some old \<or>
          task_map (remove_expired_task now order s) task_id = None)"
  using assms remove_expired_loop_task [of now order s task_id]
  by (auto simp: create_task_def Let_def remove_expired_task_def remove_expired_loop_keeps)

theorem create_task_collision_witness:
  "task_map one_finished ''a:svc'' = Some \<lparr>info = succeeded_info, errors = []\<rparr> \<and>
   create_task None ''u'' 3600000000 [(''a:svc'', 0)] None ''svc'' ''op'' True []
     (Some ''a'') one_finished
   = (''a:svc'', remove_expired_task 3600000000 [(''a:svc'', 0)] one_finished) \<and>
   task_map (remove_expired_task 3600000000 [(''a:svc'', 0)] one_finished) ''a:svc''
   = Some \<lparr>info = succeeded_info, errors = []\<rparr>"
proof -
  have h1: "''a:svc'' = create_task_id (case Some ''a'' of Some i \<Rightarrow> i | None \<Rightarrow> ''u'') ''svc''"
    by (simp add: create_task_id_def URI_DELIMITER_def)
  have h2: "task_map one_finished ''a:svc'' = Some \<lparr>info = succeeded_info, errors = []\<rparr>"
    by (simp add: one_finished_eq)
  have h3: "\<forall>t. (''a:svc'', t) \<in> set [(''a:svc'', 0::int)] \<longrightarrow>
              3600000000 - t < TASK_EXPIRE_DURATION_SEC * 1000000"
    by (simp add: TASK_EXPIRE_DURATION_SEC_def)
  from create_task_collision [OF h1 h2, of None 3600000000 "[(''a:svc'', 0)]" None
      "''op''" True "[]"] h2 h3
  show ?thesis by simp
qed

subsection \<open>Expiry\<close>

lemma two_finished_eq:
  "two_finished =
     \<lparr>task_map = [''a:svc'' \<mapsto> \<lparr>info = succeeded_info, errors = []\<rparr>,
                  ''b:svc'' \<mapsto> \<lparr>info = succeeded_info, errors = []\<rparr>],
      tasks_to_remove = {(''b:svc'', 3600000000), (''a:svc'', 0)}, tasks_to_cancel = {}\<rparr>"
  by (simp add: two_finished_def set_info_def create_task_def create_task_id_def
      URI_DELIMITER_def init_task_manager_def remove_expired_task_def Let_def
      succeeded_info_def SUCCEEDED_STRING_VALUE_def FAILED_STRING_VALUE_def)

text \<open>
  The part of C3 that the code keeps: a task is not swept while every removal entry
  of its id is younger than 24 hours, whatever the order of the iteration.
\<close>

lemma not_swept_before_expiry:
  assumes "\<forall>t. (task_id, t) \<in> set order \<longrightarrow> now - t < TASK_EXPIRE_DURATION_SEC * 1000000"
  shows "get_infos (remove_expired_task now order s) task_id = get_infos s task_id"
  using assms by (simp add: get_infos_def remove_expired_task_def remove_expired_loop_keeps)

text \<open>When the iteration meets an expired entry first, its task is gone after the sweep.\<close>

lemma remove_expired_loop_absent:
  "task_map s k = None \<Longrightarrow> task_map (remove_expired_loop now order s) k = None"
  by (induction now order s rule: remove_expired_loop.induct) auto

lemma swept_when_first:
  assumes "now - t \<ge> TASK_EXPIRE_DURATION_SEC * 1000000"
  shows "get_infos (remove_expired_task now ((task_id, t) # rest) s) task_id = None"
  using assms
  by (simp add: get_infos_def remove_expired_task_def remove_expired_loop_absent)

text \<open>
  C3 at an input where the code misses it.  Task \<open>a:svc\<close> finished at time 0 and task
  \<open>b:svc\<close> one hour later.  At 24 hours and one minute a task is created, which runs
  the sweep.  When the set of removal entries yields the entry of \<open>b:svc\<close> first, the
  loop stops there and \<open>a:svc\<close> is still among the infos; when it yields the entry of
  \<open>a:svc\<close> first, the task is removed.
\<close>

theorem expiry_sweep_stops_early:
  "iteration_order (tasks_to_remove two_finished) [(''b:svc'', 3600000000), (''a:svc'', 0)] \<and>
   get_infos (snd (create_task None ''u'' 86460000000
                     [(''b:svc'', 3600000000), (''a:svc'', 0)]
                     None ''svc'' ''op'' False [] (Some ''c'') two_finished)) ''a:svc''
   = Some succeeded_info \<and>
   iteration_order (tasks_to_remove two_finished) [(''a:svc'', 0), (''b:svc'', 3600000000)] \<and>
   get_infos (snd (create_task None ''u'' 86460000000
                     [(''a:svc'', 0), (''b:svc'', 3600000000)]
                     None ''svc'' ''op'' False [] (Some ''c'') two_finished)) ''a:svc''
   = None"
  by (simp add: two_finished_eq iteration_order_def create_task_def create_task_id_def
      URI_DELIMITER_def remove_expired_task_def Let_def TASK_EXPIRE_DURATION_SEC_def
      get_infos_def insert_commute)

section \<open>Properties of the rule generator\<close>

lemma get_id_suffix_empty_iff:
  "get_id_suffix pim = [] \<longleftrightarrow> \<not> has_identifier_parameter pim"
  by (induction pim rule: get_id_suffix.induct) (auto simp: has_identifier_parameter_def)

lemma get_id_suffix_segment:
  "has_identifier_parameter pim \<Longrightarrow>
   \<exists>n \<in> fst ` set pim. get_id_suffix pim = ''/<string:'' @ n @ ''>''"
  by (induction pim rule: get_id_suffix.induct) (auto simp: has_identifier_parameter_def)

text \<open>
  C1.  For an operation without RequestMapping and Verb annotation the generated route
  has the URL and verb of the specification's table, for every operation id and with or
  without a parameter of identifier type: \<open>list\<close> gives GET and \<open>create\<close> POST on the
  base URL; \<open>delete\<close>, \<open>get\<close>, \<open>update\<close> and \<open>set\<close> give DELETE, GET, PATCH and PUT on the
  base URL followed by the identifier segment when an identifier parameter exists and
  POST on the base URL otherwise; every other id gives POST on the base URL, followed
  by the identifier segment when there is one.  The segment names a declared parameter.
\<close>

theorem default_routes:
  assumes "request_mapping_metadata summ = None" and "verb_metadata summ = None"
  shows "(case spec_default_route
                 (generate_service_base_url (routing_rest_prefix rest_prefix) service_id)
                 (get_id_suffix (param_info_map summ))
                 (has_identifier_parameter (param_info_map summ)) op of
            (url, verb) \<Rightarrow>
              generate_mapping_rule non_task custom_url verb_url rest_prefix service_id op summ
              = Inr (Some (url, verb, DispatchInfo NONE (non_task op) None None None))) \<and>
         (has_identifier_parameter (param_info_map summ) \<longrightarrow>
            (\<exists>n \<in> fst ` set (param_info_map summ).
               get_id_suffix (param_info_map summ) = ''/<string:'' @ n @ ''>''))"
  using assms get_id_suffix_empty_iff [of "param_info_map summ"]
    get_id_suffix_segment [of "param_info_map summ"]
  by (simp add: generate_mapping_rule_def mapping_rules_def has_request_mapping_metadata_def
      has_verb_metadata_def spec_default_route_def id_rule_url_def Let_def crud_ops_def)

theorem default_routes_witness:
  "request_mapping_metadata vm_summary = None \<and> verb_metadata vm_summary = None \<and>
   generate_mapping_rule id (\<lambda>p sv op su. Inl KeyError) (\<lambda>p sv op su. Inl KeyError)
     ''/rest'' ''com.vmware.vcenter.VM'' ''delete'' vm_summary
   = Inr (Some (''/rest/com/vmware/vcenter/vm/<string:vm>'', ''DELETE'',
                DispatchInfo NONE ''delete'' None None None))"
proof -
  have h1: "request_mapping_metadata vm_summary = None" by (simp add: vm_summary_def)
  have h2: "verb_metadata vm_summary = None" by (simp add: vm_summary_def)
  from default_routes [OF h1 h2, where rest_prefix = "''/rest''"
      and service_id = "''com.vmware.vcenter.VM''" and op = "''delete''" and non_task = id
      and custom_url = "\<lambda>p sv op su. Inl KeyError"
      and verb_url = "\<lambda>p sv op su. Inl KeyError"] h1 h2
  show ?thesis
    by (simp add: spec_default_route_def has_identifier_parameter_def vm_summary_def
        generate_service_base_url_def routing_rest_prefix_def replace_char_def lower_def
        lower_char_def upper_case_letters_def lower_case_letters_def)
qed

section \<open>Properties of default matching\<close>

lemma http_method_map_simps:
  "http_method_map ''GET'' = Some ''list''" "http_method_map ''PATCH'' = Some ''update''"
  "http_method_map ''DELETE'' = Some ''delete''" "http_method_map ''POST'' = Some ''create''"
  "http_method_map ''PUT'' = Some ''set''" "http_method_map ''HEAD'' = Some ''get''"
  by (simp_all add: http_method_map_def)

lemma default_matching_value:
  assumes "http_method_map m = Some op0"
  shows "default_matching d m query_params uri_params =
     Inr ((if query_params ''~action'' \<noteq> None \<and> query_params ''~action'' \<noteq> Some []
           then map_option (replace_char CHR ''-'' CHR ''_'') (query_params ''~action'')
           else Some (if uri_params \<noteq> [] \<and> op0 = ''list'' then ''get'' else op0))
          = Some (operation_id d), 1)"
  using assms by (cases "query_params ''~action''") (simp_all add: default_matching_def Let_def)

text \<open>
  C6, as stated, fails: a POST whose query string is \<open>~action=\<close> carries the parameter
  with an empty value.  The dispatch info of \<open>create\<close> matches it, while the id the
  claim derives is the parameter's value, the empty string.
\<close>

theorem default_matching_counterexample:
  "get_operation_id (DispatchInfo NONE ''create'' None None None) post_request
     [''~action'' \<mapsto> []] [] = Inr (Some ''create'', 1, NONE) \<and>
   claimed_operation_id (request_method post_request) False ([''~action'' \<mapsto> []] ''~action'')
     \<noteq> Some ''create''"
  by (simp add: get_operation_id_def DispatchInfo_def default_matching_def http_method_map_def
      post_request_def claimed_operation_id_def replace_char_def)

text \<open>
  C6, amended.  For a dispatch info without declared predicates and a request with one
  of the six methods, the derived operation id is a function of the method, of whether
  the path carried an identifier and of the \<open>~action\<close> parameter: GET derives \<open>list\<close>, or
  \<open>get\<close> with a path identifier, PATCH \<open>update\<close>, DELETE \<open>delete\<close>, POST \<open>create\<close>, PUT
  \<open>set\<close>, HEAD \<open>get\<close>, and a \<open>~action\<close> parameter with a value that is not empty replaces
  it by its value with \<open>-\<close> turned into \<open>_\<close>.  The dispatch info matches exactly when
  the derived id is its operation id, and the arity is 1.
\<close>

theorem default_matching_derived_id:
  assumes "mapping_type d = NONE"
    and "request_method req \<in> set [''GET'', ''PATCH'', ''DELETE'', ''POST'', ''PUT'', ''HEAD'']"
  shows "get_operation_id d req query_params uri_params =
           Inr (if derived_operation_id (request_method req) (uri_params \<noteq> []) (query_params ''~action'')
                     = Some (operation_id d)
                then Some (operation_id d) else None, 1, NONE)"
proof -
  from assms(2) consider "request_method req = ''GET''" | "request_method req = ''PATCH''"
    | "request_method req = ''DELETE''" | "request_method req = ''POST''" | "request_method req = ''PUT''"
    | "request_method req = ''HEAD''"
    by auto
  then show ?thesis
  proof cases
    case 1
    with assms(1) show ?thesis
      by (simp add: get_operation_id_def derived_operation_id_def
          default_matching_value [OF http_method_map_simps(1)])
  next
    case 2
    with assms(1) show ?thesis
      by (simp add: get_operation_id_def derived_operation_id_def
          default_matching_value [OF http_method_map_simps(2)])
  next
    case 3
    with assms(1) show ?thesis
      by (simp add: get_operation_id_def derived_operation_id_def
          default_matching_value [OF http_method_map_simps(3)])
  next
    case 4
    with assms(1) show ?thesis
      by (simp add: get_operation_id_def derived_operation_id_def
          default_matching_value [OF http_method_map_simps(4)])
  next
    case 5
    with assms(1) show ?thesis
      by (simp add: get_operation_id_def derived_operation_id_def
          default_matching_value [OF http_method_map_simps(5)])
  next
    case 6
    with assms(1) show ?thesis
      by (simp add: get_operation_id_def derived_operation_id_def
          default_matching_value [OF http_method_map_simps(6)])
  qed
qed

theorem default_matching_derived_id_witness:
  "mapping_type (DispatchInfo NONE ''get'' None None None) = NONE \<and>
   request_method get_request \<in> set [''GET'', ''PATCH'', ''DELETE'', ''POST'', ''PUT'', ''HEAD''] \<and>
   get_operation_id (DispatchInfo NONE ''get'' None None None) get_request Map.empty
     [(''vm'', ''vm-42'')] = Inr (Some ''get'', 1, NONE)"
proof -
  have h1: "mapping_type (DispatchInfo NONE ''get'' None None None) = NONE"
    by (simp add: DispatchInfo_def)
  have h2: "request_method get_request \<in> set [''GET'', ''PATCH'', ''DELETE'', ''POST'', ''PUT'', ''HEAD'']"
    by (simp add: get_request_def)
  from default_matching_derived_id [OF h1 h2, of Map.empty "[(''vm'', ''vm-42'')]"] h1 h2
  show ?thesis
    by (simp add: derived_operation_id_def get_request_def DispatchInfo_def)
qed

section \<open>Properties of predicate matching\<close>





















section \<open>Properties of the REST handler\<close>

subsection \<open>An operation id that the service map does not hold\<close>

text \<open>
  C4, as stated, fails: the service has the operation \<open>list\<close>, the request asks for
  the task variant, and the resolved id \<open>list$task\<close> is not in the service map.  The
  handler raises \<open>NotFound\<close>, whose status is 404 and not 500.
\<close>

theorem missing_operation_counterexample:
  "find_matching_operation (\<lambda>op. op @ ''$task'') [''svc'' \<mapsto> [''list'' \<mapsto> list_summary]]
     get_request ''svc'' [] [''vmw-task'' \<mapsto> ''true'']
     [DispatchInfo NONE ''list'' None None None] = Inl NotFound \<and>
   http_code NotFound \<noteq> Some 500"
  by (simp add: find_matching_operation_def select_operation_def DispatchInfo_def
      task_rewrite_def TASK_REST_QUERY_PARAM_def lower_def lower_char_def upper_case_letters_def lower_case_letters_def)

text \<open>
  C4, amended.  When the operation id that the dispatch algorithm resolved, after the
  rewrite to the task variant if any, is absent from the operations of the route's
  service in the metadata store's service map, the handler raises \<open>NotFound\<close>, a
  client-facing error with status 404.
\<close>

theorem missing_operation_not_found:
  assumes "select_operation req uri q ds = Inr (op, mt)"
    and "task_rewrite task_name q op = Inr op'"
    and "service_map service_id = Some ops"
    and "ops op' = None"
  shows "find_matching_operation task_name service_map req service_id uri q ds = Inl NotFound \<and>
         http_code NotFound = Some 404"
  using assms by (simp add: find_matching_operation_def)

theorem missing_operation_not_found_witness:
  "select_operation get_request [] [''vmw-task'' \<mapsto> ''TRUE'']
     [DispatchInfo NONE ''list'' None None None] = Inr (''list'', NONE) \<and>
   task_rewrite (\<lambda>op. op @ ''$task'') [''vmw-task'' \<mapsto> ''TRUE''] ''list'' = Inr ''list$task'' \<and>
   find_matching_operation (\<lambda>op. op @ ''$task'') [''svc'' \<mapsto> [''list'' \<mapsto> list_summary]]
     get_request ''svc'' [] [''vmw-task'' \<mapsto> ''TRUE'']
     [DispatchInfo NONE ''list'' None None None] = Inl NotFound"
proof -
  have h1: "select_operation get_request [] [''vmw-task'' \<mapsto> ''TRUE'']
              [DispatchInfo NONE ''list'' None None None] = Inr (''list'', NONE)"
    by (simp add: select_operation_def DispatchInfo_def)
  have h2: "task_rewrite (\<lambda>op. op @ ''$task'') [''vmw-task'' \<mapsto> ''TRUE''] ''list''
              = Inr ''list$task''"
    by (simp add: task_rewrite_def TASK_REST_QUERY_PARAM_def lower_def lower_char_def upper_case_letters_def lower_case_letters_def)
  have h3: "[''svc'' \<mapsto> [''list'' \<mapsto> list_summary]] ''svc'' = Some [''list'' \<mapsto> list_summary]"
    by simp
  have h4: "[''list'' \<mapsto> list_summary] ''list$task'' = None"
    by simp
  from missing_operation_not_found
    [where service_map = "[''svc'' \<mapsto> [''list'' \<mapsto> list_summary]]"
      and service_id = "''svc''" and ops = "[''list'' \<mapsto> list_summary]", OF h1 h2 h3 h4] h1 h2
  show ?thesis
    by simp
qed

subsection \<open>The status of a successful invocation\<close>

text \<open>
  C7, as stated, fails: for a DELETE request on an operation that declares the success
  status 202 the handler answers 204, not the declared code.
\<close>

theorem success_status_counterexample:
  "success_response_code accepted_summary = Some 202 \<and>
   serialize_output_status Map.empty Map.empty delete_request accepted_summary
     (MethodOutput (StructValue [])) \<noteq> 202"
  by (simp add: serialize_output_status_def delete_request_def accepted_summary_def)

text \<open>
  C7, amended.  When the provider invocation succeeds, the status is 204 for a DELETE
  request, whether or not the operation declares a success status; for every
  other method it is the declared success status when there is one and 200 otherwise.
\<close>

theorem success_status:
  "serialize_output_status all_errors vapi_to_http req summ (MethodOutput out) =
     (if request_method req = ''DELETE'' then 204
      else (case success_response_code summ of Some c \<Rightarrow> c | None \<Rightarrow> 200))"
  by (simp add: serialize_output_status_def)

theorem success_status_witness:
  "serialize_output_status Map.empty Map.empty post_request accepted_summary
     (MethodOutput (StructValue [])) = 202 \<and>
   serialize_output_status Map.empty Map.empty get_request list_summary
     (MethodOutput (StructValue [])) = 200 \<and>
   serialize_output_status Map.empty Map.empty delete_request list_summary
     (MethodOutput (StructValue [])) = 204"
  using success_status [of Map.empty Map.empty post_request accepted_summary "StructValue []"]
    success_status [of Map.empty Map.empty get_request list_summary "StructValue []"]
    success_status [of Map.empty Map.empty delete_request list_summary "StructValue []"]
  by (simp add: post_request_def get_request_def delete_request_def accepted_summary_def
      list_summary_def)

subsection \<open>Choosing among the dispatch infos of a route\<close>

lemma get_operation_id_shape:
  assumes "get_operation_id d req q u = Inr (cop, car, cty)"
  shows "cty = mapping_type d \<and> (cop = None \<or> cop = Some (operation_id d))"
  using assms
  by (auto simp: get_operation_id_def split: sum.splits prod.splits if_splits)

lemma default_matching_total:
  assumes "http_method_map m \<noteq> None"
  shows "\<exists>r. default_matching d m q u = Inr r"
  using assms by (auto simp: default_matching_def Let_def)

lemma get_operation_id_total:
  assumes "http_method_map (request_method req) \<noteq> None"
  shows "\<exists>cop car. get_operation_id d req q u = Inr (cop, car, mapping_type d)"
proof -
  obtain r where r: "default_matching d (request_method req) q u = Inr r"
    using default_matching_total [OF assms] by blast
  have "\<exists>r'. request_matching d (request_method req) q u = Inr r'"
    using r by (cases "q ACTION_PARAM") (simp_all add: request_matching_def)
  then obtain r' where r': "request_matching d (request_method req) q u = Inr r'"
    by blast
  show ?thesis
    using r r' by (cases r; cases r'; cases "verb_matching d q (request_headers req)")
      (auto simp: get_operation_id_def)
qed

lemma matching_loop_append:
  "matching_loop req q u (xs @ ys) best =
     (case matching_loop req q u xs best of Inl e \<Rightarrow> Inl e
      | Inr best' \<Rightarrow> matching_loop req q u ys best')"
  by (induction req q u xs best rule: matching_loop.induct)
     (auto split: sum.splits prod.splits)

lemma matching_loop_prefix:
  assumes "http_method_map (request_method req) \<noteq> None"
    and "\<forall>x \<in> set pre. \<forall>b. get_operation_id x req q u
            = Inr (Some (operation_id x), b, mapping_type x) \<longrightarrow> b \<le> a"
    and "ar0 \<le> a"
  shows "\<exists>op mt ar. matching_loop req q u pre (op0, mt0, ar0) = Inr (op, mt, ar) \<and> ar \<le> a"
  using assms(2,3)
proof (induction pre arbitrary: op0 mt0 ar0)
  case Nil
  then show ?case by simp
next
  case (Cons x pre)
  obtain cop car where g: "get_operation_id x req q u = Inr (cop, car, mapping_type x)"
    using get_operation_id_total [OF assms(1)] by blast
  show ?case
  proof (cases "cop \<noteq> None \<and> car \<ge> ar0")
    case True
    then have "cop = Some (operation_id x)"
      using get_operation_id_shape [OF g] by auto
    with g Cons.prems have "car \<le> a" by auto
    with Cons.IH [of car cop "mapping_type x"] Cons.prems True g show ?thesis
      by auto
  next
    case False
    with Cons.IH [of ar0 op0 mt0] Cons.prems g show ?thesis
      by auto
  qed
qed

lemma matching_loop_suffix:
  assumes "http_method_map (request_method req) \<noteq> None"
    and "\<forall>x \<in> set post. \<forall>b. get_operation_id x req q u
            = Inr (Some (operation_id x), b, mapping_type x) \<longrightarrow> b < a"
  shows "matching_loop req q u post (op, mt, a) = Inr (op, mt, a)"
  using assms(2)
proof (induction post)
  case Nil
  then show ?case by simp
next
  case (Cons x post)
  obtain cop car where g: "get_operation_id x req q u = Inr (cop, car, mapping_type x)"
    using get_operation_id_total [OF assms(1)] by blast
  have "\<not> (cop \<noteq> None \<and> car \<ge> a)"
  proof
    assume h: "cop \<noteq> None \<and> car \<ge> a"
    then have "cop = Some (operation_id x)"
      using get_operation_id_shape [OF g] by auto
    with g Cons.prems have "car < a" by auto
    with h show False by simp
  qed
  with Cons g show ?case by auto
qed

lemma get_operation_id_examples:
  "get_operation_id verb_first get_request query_xy [] = Inr (Some ''first'', 3, VERB)"
  "get_operation_id verb_second get_request query_xy [] = Inr (Some ''second'', 3, VERB)"
  "get_operation_id verb_both get_request query_xy [] = Inr (Some ''both'', 10, VERB)"
  "get_operation_id plain_list get_request query_xy [] = Inr (Some ''list'', 1, NONE)"
  "get_operation_id verb_other get_request query_xy [] = Inr (Some ''other'', - 1, VERB)"
  "get_operation_id plain_create get_request query_xy [] = Inr (None, 1, NONE)"
  by (simp_all add: get_operation_id_def verb_matching_def param_step_def DispatchInfo_def
      verb_first_def verb_second_def verb_both_def verb_other_def plain_list_def
      plain_create_def query_xy_def get_request_def strip_def is_space_def
      default_matching_def http_method_map_def Let_def)


text \<open>
  C2, as stated, fails.  Two dispatch infos match the request with the same arity 3, and
  the handler selects the later one, \<open>second\<close>, not the earlier.  And a dispatch info
  that is the only one to match, with arity \<open>-1\<close>, is not selected: the handler raises
  \<open>NotFound\<close>.
\<close>

theorem tie_break_counterexample:
  "get_operation_id verb_first get_request query_xy [] = Inr (Some ''first'', 3, VERB) \<and>
   get_operation_id verb_second get_request query_xy [] = Inr (Some ''second'', 3, VERB) \<and>
   select_operation get_request [] query_xy [verb_first, verb_second] = Inr (''second'', VERB) \<and>
   get_operation_id verb_other get_request query_xy [] = Inr (Some ''other'', - 1, VERB) \<and>
   get_operation_id plain_create get_request query_xy [] = Inr (None, 1, NONE) \<and>
   select_operation get_request [] query_xy [verb_other, plain_create] = Inl NotFound"
  by (simp add: get_operation_id_examples select_operation_def)


lemma matching_loop_selects:
  assumes "http_method_map (request_method req) \<noteq> None"
    and "get_operation_id d req q u = Inr (Some (operation_id d), a, mapping_type d)"
    and "0 \<le> a"
    and "\<forall>x \<in> set pre. \<forall>b. get_operation_id x req q u
            = Inr (Some (operation_id x), b, mapping_type x) \<longrightarrow> b \<le> a"
    and "\<forall>x \<in> set post. \<forall>b. get_operation_id x req q u
            = Inr (Some (operation_id x), b, mapping_type x) \<longrightarrow> b < a"
  shows "matching_loop req q u (pre @ d # post) (None, NONE, 0)
         = Inr (Some (operation_id d), mapping_type d, a)"
proof -
  obtain op1 mt1 ar1 where
    p: "matching_loop req q u pre (None, NONE, 0) = Inr (op1, mt1, ar1)" and le: "ar1 \<le> a"
    using matching_loop_prefix [OF assms(1) assms(4) assms(3)] by blast
  have "matching_loop req q u (d # post) (op1, mt1, ar1)
        = matching_loop req q u post (Some (operation_id d), mapping_type d, a)"
    using assms(2) le by simp
  also have "\<dots> = Inr (Some (operation_id d), mapping_type d, a)"
    by (rule matching_loop_suffix [OF assms(1) assms(5)])
  finally show ?thesis
    using p by (simp add: matching_loop_append)
qed

text \<open>
  C2, amended.  For a route with more than one dispatch info and a request with a method
  of \<open>http_method_map\<close>: a dispatch info that matches with an arity \<open>a\<close> of at least 0 is
  selected when no matching dispatch info before it in the list has a higher arity and
  every matching dispatch info after it has a lower one.  So among the matching
  dispatch infos of non-negative arity the handler selects one of highest arity, and
  of several with that arity the one that comes last in the list.  When every dispatch
  info that matches has a negative arity, none is selected and the handler raises
  \<open>NotFound\<close>.
\<close>

theorem last_best_match_selected:
  assumes "http_method_map (request_method req) \<noteq> None"
    and "length ds > 1"
  shows "(ds = pre @ d # post \<and>
          get_operation_id d req q u = Inr (Some (operation_id d), a, mapping_type d) \<and>
          0 \<le> a \<and>
          (\<forall>x \<in> set pre. \<forall>b. get_operation_id x req q u
              = Inr (Some (operation_id x), b, mapping_type x) \<longrightarrow> b \<le> a) \<and>
          (\<forall>x \<in> set post. \<forall>b. get_operation_id x req q u
              = Inr (Some (operation_id x), b, mapping_type x) \<longrightarrow> b < a)
          \<longrightarrow> select_operation req u q ds = Inr (operation_id d, mapping_type d)) \<and>
         ((\<forall>x \<in> set ds. \<forall>b. get_operation_id x req q u
              = Inr (Some (operation_id x), b, mapping_type x) \<longrightarrow> b < 0)
          \<longrightarrow> select_operation req u q ds = Inl NotFound)"
proof (intro conjI impI)
  assume h: "ds = pre @ d # post \<and>
          get_operation_id d req q u = Inr (Some (operation_id d), a, mapping_type d) \<and>
          0 \<le> a \<and>
          (\<forall>x \<in> set pre. \<forall>b. get_operation_id x req q u
              = Inr (Some (operation_id x), b, mapping_type x) \<longrightarrow> b \<le> a) \<and>
          (\<forall>x \<in> set post. \<forall>b. get_operation_id x req q u
              = Inr (Some (operation_id x), b, mapping_type x) \<longrightarrow> b < a)"
  then have "matching_loop req q u (pre @ d # post) (None, NONE, 0)
             = Inr (Some (operation_id d), mapping_type d, a)"
    by (intro matching_loop_selects [OF assms(1)]) simp_all
  with h assms(2) show "select_operation req u q ds = Inr (operation_id d, mapping_type d)"
    by (simp add: select_operation_def)
next
  assume "\<forall>x \<in> set ds. \<forall>b. get_operation_id x req q u
              = Inr (Some (operation_id x), b, mapping_type x) \<longrightarrow> b < 0"
  then have "matching_loop req q u ds (None, NONE, 0) = Inr (None, NONE, 0)"
    by (rule matching_loop_suffix [OF assms(1)])
  with assms(2) show "select_operation req u q ds = Inl NotFound"
    by (simp add: select_operation_def)
qed

theorem last_best_match_selected_witness:
  "select_operation get_request [] query_xy [plain_list, verb_first, verb_both, verb_second]
     = Inr (''both'', VERB) \<and>
   select_operation get_request [] query_xy [verb_second, plain_list, verb_first]
     = Inr (''first'', VERB) \<and>
   select_operation get_request [] query_xy [plain_create, verb_other] = Inl NotFound"
proof -
  have h1: "http_method_map (request_method get_request) \<noteq> None"
    by (simp add: get_request_def http_method_map_def)
  have ops: "operation_id verb_both = ''both''" "mapping_type verb_both = VERB"
    "operation_id verb_first = ''first''" "mapping_type verb_first = VERB"
    "operation_id verb_second = ''second''" "mapping_type verb_second = VERB"
    "operation_id verb_other = ''other''" "mapping_type verb_other = VERB"
    "operation_id plain_list = ''list''" "mapping_type plain_list = NONE"
    "operation_id plain_create = ''create''" "mapping_type plain_create = NONE"
    by (simp_all add: verb_both_def verb_first_def verb_second_def verb_other_def
        plain_list_def plain_create_def DispatchInfo_def)
  have a: "select_operation get_request [] query_xy
             [plain_list, verb_first, verb_both, verb_second] = Inr (''both'', VERB)"
    using last_best_match_selected [OF h1, where
        ds = "[plain_list, verb_first, verb_both, verb_second]" and
        pre = "[plain_list, verb_first]" and d = verb_both and post = "[verb_second]" and
        a = 10 and q = query_xy and u = "[]"]
    by (simp add: get_operation_id_examples ops)
  have b: "select_operation get_request [] query_xy
             [verb_second, plain_list, verb_first] = Inr (''first'', VERB)"
    using last_best_match_selected [OF h1, where
        ds = "[verb_second, plain_list, verb_first]" and
        pre = "[verb_second, plain_list]" and d = verb_first and post = "[]" and
        a = 3 and q = query_xy and u = "[]"]
    by (simp add: get_operation_id_examples ops)
  have c: "select_operation get_request [] query_xy [plain_create, verb_other] = Inl NotFound"
    using last_best_match_selected [OF h1, where
        ds = "[plain_create, verb_other]" and q = query_xy and u = "[]"]
    by (simp add: get_operation_id_examples ops)
  from a b c show ?thesis by simp
qed

end
